theory Spec2Isabelle
  imports Complex_Main
begin

section \<open>ProductPro: a shallow embedding of \<open>src/ProductPro.tsx\<close>\<close>

text \<open>
  The component is modelled handler by handler. React state and the browser's
  \<open>localStorage\<close> are fields of one record that each handler takes and returns;
  what the browser decides (the clock, the file reader, the image decoder, the font
  metrics, the ZIP library) is a record of parameters, \<open>env\<close>. A handler is modelled
  as one atomic step: the state it leaves when all its promises have settled. The
  store is a map whose reads and writes always succeed.

  JavaScript numbers are modelled by exact rationals (integers where the code rounds);
  \<open>NaN\<close> and the infinities are written out where a division by zero or a failed
  parse can produce them. Strings are lists of characters.
\<close>

subsection \<open>Numbers\<close>

text \<open>\<open>Math.round\<close> on a finite number: the nearest integer, a half rounded up.\<close>

definition Math_round :: "rat \<Rightarrow> int" where
  "Math_round x = \<lfloor>x + 1 / 2\<rfloor>"

text \<open>A JavaScript number that may fail to be finite.\<close>

datatype number = Fin rat | PInf | NInf | NaN

text \<open>\<open>a / b\<close> for finite operands; a zero divisor is the positive zero.\<close>

definition js_div :: "rat \<Rightarrow> rat \<Rightarrow> number" where
  "js_div a b =
     (if b \<noteq> 0 then Fin (a / b)
      else if a = 0 then NaN
      else if 0 < a then PInf else NInf)"

fun Math_min :: "number \<Rightarrow> number \<Rightarrow> number" where
  "Math_min NaN _ = NaN"
| "Math_min _ NaN = NaN"
| "Math_min NInf _ = NInf"
| "Math_min _ NInf = NInf"
| "Math_min PInf y = y"
| "Math_min x PInf = x"
| "Math_min (Fin a) (Fin b) = Fin (min a b)"

text \<open>\<open>a * r\<close> for a finite left operand.\<close>

fun js_mul :: "rat \<Rightarrow> number \<Rightarrow> number" where
  "js_mul a (Fin b) = Fin (a * b)"
| "js_mul a NaN = NaN"
| "js_mul a PInf = (if a = 0 then NaN else if 0 < a then PInf else NInf)"
| "js_mul a NInf = (if a = 0 then NaN else if 0 < a then NInf else PInf)"

text \<open>\<open>a - x\<close> for a finite left operand, and \<open>x / b\<close> for a finite divisor.\<close>

fun js_sub :: "rat \<Rightarrow> number \<Rightarrow> number" where
  "js_sub a (Fin b) = Fin (a - b)"
| "js_sub a NaN = NaN"
| "js_sub a PInf = NInf"
| "js_sub a NInf = PInf"

fun js_quot :: "number \<Rightarrow> rat \<Rightarrow> number" where
  "js_quot (Fin a) b = js_div a b"
| "js_quot NaN b = NaN"
| "js_quot PInf b = (if b < 0 then NInf else PInf)"
| "js_quot NInf b = (if b < 0 then PInf else NInf)"

fun Math_round_num :: "number \<Rightarrow> number" where
  "Math_round_num (Fin x) = Fin (of_int (Math_round x))"
| "Math_round_num x = x"

subsection \<open>Strings and numbers\<close>

definition digitChar :: "nat \<Rightarrow> char" where
  "digitChar d = ''0123456789'' ! d"

function decimal :: "nat \<Rightarrow> string" where
  "decimal n = (if n < 10 then [digitChar n] else decimal (n div 10) @ [digitChar (n mod 10)])"
  by pat_completeness auto
termination
  by (relation "measure id") auto

declare decimal.simps [simp del]

text \<open>\<open>String(v)\<close> and \<open>`${v}`\<close> for an integer \<open>v\<close>: its decimal digits.\<close>

definition js_String :: "int \<Rightarrow> string" where
  "js_String v = (if v < 0 then CHR ''-'' # decimal (nat (- v)) else decimal (nat v))"

text \<open>
  The usage counter is a JavaScript number that is an integer or \<open>NaN\<close>; \<open>None\<close>
  stands for \<open>NaN\<close>.
\<close>

definition String_counter :: "int option \<Rightarrow> string" where
  "String_counter v = (case v of None \<Rightarrow> ''NaN'' | Some n \<Rightarrow> js_String n)"

fun indexOf :: "'a list \<Rightarrow> 'a \<Rightarrow> nat option" where
  "indexOf [] c = None"
| "indexOf (x # xs) c = (if x = c then Some 0 else map_option Suc (indexOf xs c))"

definition digitVal :: "char \<Rightarrow> nat option" where
  "digitVal c = indexOf ''0123456789'' c"

fun digitsVal :: "string \<Rightarrow> nat \<Rightarrow> nat option" where
  "digitsVal [] acc = Some acc"
| "digitsVal (c # cs) acc =
     (case digitVal c of None \<Rightarrow> None | Some d \<Rightarrow> digitsVal cs (10 * acc + d))"

text \<open>
  \<open>Number(s)\<close> on the strings this program stores: the empty string is 0, an optional
  sign followed by decimal digits is that integer, and anything else is \<open>NaN\<close>.
  The other numeric literals of JavaScript (surrounding white space, fractions,
  exponents, \<open>0x\<close>, \<open>Infinity\<close>) are never written by the program and are outside
  this model.
\<close>

definition js_Number :: "string \<Rightarrow> int option" where
  "js_Number s =
     (case s of
        [] \<Rightarrow> Some 0
      | c # cs \<Rightarrow>
          if c = CHR ''-'' then (if cs = [] then None else map_option (\<lambda>n. - int n) (digitsVal cs 0))
          else if c = CHR ''+'' then (if cs = [] then None else map_option int (digitsVal cs 0))
          else map_option int (digitsVal s 0))"

text \<open>\<open>s.padStart(n, c)\<close> with a one-character pad string, and \<open>s.startsWith(p)\<close>.\<close>

definition padStart :: "nat \<Rightarrow> char \<Rightarrow> string \<Rightarrow> string" where
  "padStart n c s = replicate (n - length s) c @ s"

definition startsWith :: "string \<Rightarrow> string \<Rightarrow> bool" where
  "startsWith s p = (take (length p) s = p)"

text \<open>
  \<open>parseInt(s, 16)\<close> on ASCII strings: white space and a sign are skipped, then an
  optional \<open>0x\<close>, then the longest run of hexadecimal digits is read; with no digit
  the result is \<open>NaN\<close> (\<open>None\<close>).
\<close>

definition hexVal :: "char \<Rightarrow> nat option" where
  "hexVal c =
     (case indexOf ''0123456789abcdef'' c of
        Some d \<Rightarrow> Some d
      | None \<Rightarrow> map_option (\<lambda>d. d + 10) (indexOf ''ABCDEF'' c))"

fun hexDigits :: "string \<Rightarrow> nat option \<Rightarrow> nat option" where
  "hexDigits [] acc = acc"
| "hexDigits (c # cs) acc =
     (case hexVal c of
        None \<Rightarrow> acc
      | Some d \<Rightarrow> hexDigits cs (Some (16 * (case acc of None \<Rightarrow> 0 | Some a \<Rightarrow> a) + d)))"

definition isSpace :: "char \<Rightarrow> bool" where
  "isSpace c = (c \<in> set [CHR '' '', CHR 0x09, CHR 0x0A, CHR 0x0B, CHR 0x0C, CHR 0x0D])"

definition parseInt16 :: "string \<Rightarrow> int option" where
  "parseInt16 s =
     (let s1 = dropWhile isSpace s;
          neg = (take 1 s1 = ''-'');
          s2 = (if take 1 s1 = ''-'' \<or> take 1 s1 = ''+'' then drop 1 s1 else s1);
          s3 = (if take 2 s2 = ''0x'' \<or> take 2 s2 = ''0X'' then drop 2 s2 else s2)
      in map_option (\<lambda>n. if neg then - int n else int n) (hexDigits s3 None))"

text \<open>\<open>s.replace(p, "")\<close> with a one-character pattern: the first occurrence goes.\<close>

fun removeFirst :: "char \<Rightarrow> string \<Rightarrow> string" where
  "removeFirst c [] = []"
| "removeFirst c (x # xs) = (if x = c then xs else x # removeFirst c xs)"

subsection \<open>Types\<close>

datatype gen_mode = Photo | Poster
datatype gen_ratio = R1_1 | R4_5 | R16_9 | R9_16
datatype gen_quality = Standard | High | Ultra

record GenOptions =
  mode :: gen_mode
  style :: string
  customPrompt :: string
  ratio :: gen_ratio
  quality :: gen_quality
  watermark :: bool

text \<open>The string values of the three enumerations, as the templates print them.\<close>

fun mode_str :: "gen_mode \<Rightarrow> string" where
  "mode_str Photo = ''photo''"
| "mode_str Poster = ''poster''"

fun ratio_str :: "gen_ratio \<Rightarrow> string" where
  "ratio_str R1_1 = ''1:1''"
| "ratio_str R4_5 = ''4:5''"
| "ratio_str R16_9 = ''16:9''"
| "ratio_str R9_16 = ''9:16''"

fun quality_str :: "gen_quality \<Rightarrow> string" where
  "quality_str Standard = ''standard''"
| "quality_str High = ''high''"
| "quality_str Ultra = ''ultra''"

text \<open>A decoded image element: its natural width and height.\<close>

record image =
  width :: int
  height :: int

text \<open>
  A canvas is its size and the drawing calls made on it, in order, each with the
  context state it was drawn under: \<open>fillRect\<close> with the fill style,
  \<open>drawImage\<close> with the filter and the global alpha, \<open>fillText\<close> with the fill
  style, the font and the global alpha. The smoothing flags of the context are not
  represented. A fill style built by \<open>hexWithAlpha\<close> is kept as the four numbers
  interpolated into \<open>rgba(r,g,b,a)\<close>.
\<close>

datatype fill_style = Colour string | Rgba "int option" "int option" "int option" rat

datatype draw_op =
    FillRect fill_style rat rat rat rat
  | DrawImage string rat image number number number number
  | FillText fill_style string rat string rat rat

record canvas =
  cwidth :: int
  cheight :: int
  ops :: "draw_op list"

text \<open>
  A data URL is kept as what it encodes: the type and bytes of an uploaded file
  (\<open>FileReader.readAsDataURL\<close>), or the canvas that \<open>toDataURL("image/png")\<close>
  was called on.
\<close>

datatype data_url = FileData string string | Png canvas

record upload =
  ftype :: string
  bytes :: string

record date =
  getFullYear :: int
  getMonth :: nat
  getDate :: nat

datatype js_error = Error string

fun message :: "js_error \<Rightarrow> string" where
  "message (Error m) = m"

text \<open>
  What the browser decides: the clock (\<open>new Date()\<close> and \<open>Date.now()\<close>), whether the
  file reader can read a file, what the image decoder makes of a data URL (\<open>None\<close>
  when \<open>onerror\<close> fires), the width \<open>measureText\<close> gives a text in a font, and
  whether loading JSZip and packaging the given entries succeeds.
\<close>

record env =
  today :: date
  now :: int
  readable :: "upload \<Rightarrow> bool"
  decode :: "data_url \<Rightarrow> image option"
  measureText :: "string \<Rightarrow> string \<Rightarrow> rat"
  zipOk :: "(string \<times> data_url) list \<Rightarrow> bool"

record preset =
  pname :: string
  pfilter :: string

record copy =
  caption :: string
  ad :: string

record state =
  img :: "data_url option"
  busy :: bool
  error :: "string option"
  options :: GenOptions
  variants :: "data_url list"
  copies :: "copy list"
  opsUsed :: "int option"
  localStorage :: "string \<rightharpoonup> string"

subsection \<open>Helpers\<close>

record fit =
  fit_w :: number
  fit_h :: number

definition contain :: "rat \<Rightarrow> rat \<Rightarrow> rat \<Rightarrow> rat \<Rightarrow> fit" where
  "contain iw ih maxW maxH =
     (let r = Math_min (js_div maxW iw) (js_div maxH ih)
      in \<lparr>fit_w = Math_round_num (js_mul iw r), fit_h = Math_round_num (js_mul ih r)\<rparr>)"

definition hexWithAlpha :: "string \<Rightarrow> rat \<Rightarrow> fill_style" where
  "hexWithAlpha hex a =
     (let x = removeFirst (CHR ''#'') hex;
          r = parseInt16 (take 2 x);
          g = parseInt16 (take 2 (drop 2 x));
          b = parseInt16 (take 2 (drop 4 x))
      in Rgba r g b a)"

text \<open>
  \<open>truncate\<close>, the helper of the source, with the ellipsis character U+2026 written
  as its three UTF-8 bytes.
\<close>

definition ellipsis :: string where
  "ellipsis = [CHR 0xE2, CHR 0x80, CHR 0xA6]"

definition truncate_str :: "string \<Rightarrow> nat \<Rightarrow> string" where
  "truncate_str s n = (if length s > n then take (n - 1) s @ ellipsis else s)"

text \<open>
  \<open>loadImage\<close> resolves with the decoded image or rejects with its error;
  \<open>fileToDataUrl\<close> likewise.
\<close>

definition loadImage :: "env \<Rightarrow> data_url \<Rightarrow> js_error + image" where
  "loadImage e src =
     (case decode e src of
        None \<Rightarrow> Inl (Error ''Gagal memuat gambar.'')
      | Some im \<Rightarrow> Inr im)"

definition fileToDataUrl :: "env \<Rightarrow> upload \<Rightarrow> js_error + data_url" where
  "fileToDataUrl e f =
     (if readable e f then Inr (FileData (ftype f) (bytes f))
      else Inl (Error ''Gagal membaca file.''))"

subsection \<open>Demo generators\<close>

definition buildPresetFilters :: "GenOptions \<Rightarrow> preset list" where
  "buildPresetFilters opts =
     (let base = ''contrast(1.05) saturate(1.05)'';
          list =
            [\<lparr>pname = ''clean'', pfilter = base @ '' brightness(1.03)''\<rparr>,
             \<lparr>pname = ''moody'', pfilter = base @ '' brightness(0.92) contrast(1.15)''\<rparr>,
             \<lparr>pname = ''pop'', pfilter = base @ '' brightness(1.1) saturate(1.25)''\<rparr>,
             \<lparr>pname = ''matte'', pfilter = base @ '' brightness(1.0) contrast(0.95)''\<rparr>]
      in if mode opts = Poster then rev list else list)"

definition buildCopies :: "GenOptions \<Rightarrow> copy list" where
  "buildCopies opts =
     [\<lparr>caption = ''Upgrade tampilan produkmu. ''
          @ (if mode opts = Photo then ''Foto studio bersih'' else ''Poster modern'')
          @ '' dengan gaya: '' @ style opts @ ''. #ProductPro'',
       ad = ''Kenalkan produk Anda dengan visual '' @ mode_str (mode opts)
          @ ''. Gaya: '' @ style opts @ ''. Coba gratis hari ini.''\<rparr>,
      \<lparr>caption = ''Visual yang bikin berhenti scroll. ''
          @ (if mode opts = Photo then ''Foto'' else ''Poster'')
          @ '' bergaya '' @ style opts @ ''.'',
       ad = ''Tingkatkan CTR dengan aset '' @ mode_str (mode opts)
          @ '' berkualitas '' @ quality_str (quality opts) @ ''. Mulai sekarang!''\<rparr>,
      \<lparr>caption = ''Dari foto biasa jadi materi siap upload. Aspect ''
          @ ratio_str (ratio opts) @ ''.'',
       ad = ''Generate 4 variasi otomatis + watermark opsional. Cocok untuk UMKM.''\<rparr>,
      \<lparr>caption = ''Tampil konsisten di feed. ''
          @ (if mode opts = Photo then ''Lighting terkontrol'' else ''Grid tipografi rapi'')
          @ ''.'',
       ad = ''Sesuaikan style & export ZIP. Scale kontenmu tanpa ribet.''\<rparr>]"

text \<open>
  The locals of \<open>generateVariants\<close> that depend on the options only: the table
  \<open>ratios\<close>, \<open>qualityScale\<close>, and the canvas width \<open>cw\<close>, height \<open>ch\<close> and padding
  \<open>pad\<close> that every turn of the loop computes.
\<close>

fun ratios :: "gen_ratio \<Rightarrow> int \<times> int" where
  "ratios R1_1 = (1024, 1024)"
| "ratios R4_5 = (1024, 1280)"
| "ratios R16_9 = (1280, 720)"
| "ratios R9_16 = (1080, 1920)"

definition qualityScale :: "GenOptions \<Rightarrow> rat" where
  "qualityScale opts =
     (if quality opts = Ultra then 16 / 10 else if quality opts = High then 13 / 10 else 1)"

definition cw :: "GenOptions \<Rightarrow> int" where
  "cw opts = Math_round (of_int (fst (ratios (ratio opts))) * qualityScale opts)"

definition ch :: "GenOptions \<Rightarrow> int" where
  "ch opts = Math_round (of_int (snd (ratios (ratio opts))) * qualityScale opts)"

definition pad :: "GenOptions \<Rightarrow> int" where
  "pad opts = Math_round (of_int (min (cw opts) (ch opts)) * (8 / 100))"

text \<open>
  The grid accent of poster mode:
  \<^verbatim>\<open>for (let gx = pad; gx < cw - pad; gx += Math.round((cw - pad * 2) / 6))\<close>.
  The step is positive for every ratio and quality, which is the termination proof.
\<close>

function gridLoop :: "GenOptions \<Rightarrow> int \<Rightarrow> draw_op list \<Rightarrow> draw_op list" where
  "gridLoop opts gx acc =
     (if gx < cw opts - pad opts
      then gridLoop opts (gx + Math_round (of_int (cw opts - pad opts * 2) / 6))
             (acc @ [FillRect (hexWithAlpha ''#ffffff'' (6 / 100))
                       (of_int gx) (of_int (pad opts)) 1 (of_int (ch opts - pad opts * 2))])
      else acc)"
  by pat_completeness auto
termination
proof (relation "measure (\<lambda>(opts, gx, acc). nat (cw opts - pad opts - gx))")
  show "wf (measure (\<lambda>(opts, gx, acc). nat (cw opts - pad opts - gx)))"
    by simp
next
  fix opts :: GenOptions and gx :: int and acc :: "draw_op list"
  assume lt: "gx < cw opts - pad opts"
  have fl: "\<lfloor>(numeral a :: rat) / numeral b\<rfloor> = numeral a div numeral b" for a b
    by (metis floor_divide_of_int_eq of_int_numeral)
  have "0 < Math_round (of_int (cw opts - pad opts * 2) / 6)"
    by (cases "ratio opts"; cases "quality opts";
        simp add: cw_def ch_def pad_def qualityScale_def Math_round_def fl)
  with lt show "((opts, gx + Math_round (of_int (cw opts - pad opts * 2) / 6),
                  acc @ [FillRect (hexWithAlpha ''#ffffff'' (6 / 100))
                       (of_int gx) (of_int (pad opts)) 1 (of_int (ch opts - pad opts * 2))]),
                 (opts, gx, acc))
                \<in> measure (\<lambda>(opts, gx, acc). nat (cw opts - pad opts - gx))"
    by simp
qed

declare gridLoop.simps [simp del]

text \<open>One turn of the loop of \<open>generateVariants\<close>: the canvas of variant \<open>i\<close>.\<close>

definition drawVariant :: "env \<Rightarrow> image \<Rightarrow> GenOptions \<Rightarrow> preset list \<Rightarrow> nat \<Rightarrow> canvas" where
  "drawVariant e base opts presets i =
     (let background =
            [FillRect (Colour (if mode opts = Poster then ''#0a0a0a'' else ''#111''))
               0 0 (of_int (cw opts)) (of_int (ch opts))];
          iw = cw opts - pad opts * 2;
          ih = ch opts - pad opts * 2;
          fit = contain (of_int (width base)) (of_int (height base)) (of_int iw) (of_int ih);
          ix = js_quot (js_sub (of_int (cw opts)) (fit_w fit)) 2;
          iy = js_quot (js_sub (of_int (ch opts)) (fit_h fit)) 2;
          product =
            [DrawImage (pfilter (presets ! (i mod length presets))) 1 base
               ix iy (fit_w fit) (fit_h fit)];
          poster =
            (if mode opts = Poster
             then gridLoop opts (pad opts) []
                  @ [FillText (Colour ''#fff'')
                       (js_String (Math_round (of_int (cw opts) * (6 / 100))) @ ''px sans-serif'')
                       1 ''PRODUCTPRO''
                       (of_int (pad opts)) (of_int (ch opts) - of_int (pad opts) * (12 / 10)),
                     FillText (Colour ''#fff'')
                       (js_String (Math_round (of_int (cw opts) * (3 / 100))) @ ''px sans-serif'')
                       (8 / 10) (truncate_str (style opts) 42)
                       (of_int (pad opts)) (of_int (ch opts) - of_int (pad opts) * (6 / 10)),
                     FillRect (hexWithAlpha ''#ffffff'' (12 / 100))
                       (of_int (pad opts)) (of_int (pad opts))
                       (of_int (Math_round (of_int (cw opts) * (28 / 100))))
                       (of_int (Math_round (of_int (ch opts) * (2 / 100))))]
             else []);
          mark =
            (if watermark opts
             then (let font = js_String (Math_round (of_int (cw opts) * (18 / 1000)))
                                @ ''px sans-serif'';
                       text = ''ProductPro'';
                       tw = measureText e font text
                   in [FillText (hexWithAlpha ''#ffffff'' (7 / 10)) font 1 text
                         (of_int (cw opts) - tw - of_int (pad opts))
                         (of_int (ch opts - pad opts))])
             else [])
      in \<lparr>cwidth = cw opts, cheight = ch opts,
          ops = background @ product @ poster @ mark\<rparr>)"

text \<open>\<^verbatim>\<open>for (let i = 0; i < 4; i++) { ...; out.push(c.toDataURL("image/png")); }\<close>\<close>

function variantLoop ::
  "env \<Rightarrow> image \<Rightarrow> GenOptions \<Rightarrow> preset list \<Rightarrow> nat \<Rightarrow> data_url list \<Rightarrow> data_url list" where
  "variantLoop e base opts presets i out =
     (if i < 4
      then variantLoop e base opts presets (i + 1)
             (out @ [Png (drawVariant e base opts presets i)])
      else out)"
  by pat_completeness auto
termination
  by (relation "measure (\<lambda>(e, base, opts, presets, i, out). 4 - i)") auto

declare variantLoop.simps [simp del]

definition generateVariants :: "env \<Rightarrow> data_url \<Rightarrow> GenOptions \<Rightarrow> js_error + data_url list" where
  "generateVariants e src opts =
     (case loadImage e src of
        Inl err \<Rightarrow> Inl err
      | Inr base \<Rightarrow> Inr (variantLoop e base opts (buildPresetFilters opts) 0 []))"

definition upscale2x :: "env \<Rightarrow> data_url \<Rightarrow> js_error + data_url" where
  "upscale2x e dataUrl =
     (case loadImage e dataUrl of
        Inl err \<Rightarrow> Inl err
      | Inr im \<Rightarrow>
          (let c = \<lparr>cwidth = width im * 2, cheight = height im * 2, ops = []\<rparr>
           in Inr (Png (c\<lparr>ops := [DrawImage ''none'' 1 im (Fin 0) (Fin 0)
                                    (Fin (of_int (cwidth c))) (Fin (of_int (cheight c)))]\<rparr>))))"

subsection \<open>Rate limit\<close>

definition keyForToday :: "env \<Rightarrow> string" where
  "keyForToday e =
     (let d = today e;
          y = getFullYear d;
          m = padStart 2 (CHR ''0'') (js_String (int (getMonth d) + 1));
          day = padStart 2 (CHR ''0'') (js_String (int (getDate d)))
      in ''pp_ops_'' @ js_String y @ ''-'' @ m @ ''-'' @ day)"

text \<open>
  \<open>Number(localStorage.getItem(key) || "0")\<close>: a missing key and the empty string
  both read as \<open>"0"\<close>.
\<close>

definition getOpsUsed :: "env \<Rightarrow> (string \<rightharpoonup> string) \<Rightarrow> int option" where
  "getOpsUsed e store =
     (let key = keyForToday e
      in js_Number (case store key of
                      None \<Rightarrow> ''0''
                    | Some v \<Rightarrow> if v = [] then ''0'' else v))"

definition incOpsUsed :: "env \<Rightarrow> int \<Rightarrow> state \<Rightarrow> state" where
  "incOpsUsed e n s =
     (let key = keyForToday e;
          v = map_option (\<lambda>u. u + n) (getOpsUsed e (localStorage s))
      in s\<lparr>localStorage := (localStorage s)(key \<mapsto> String_counter v), opsUsed := v\<rparr>)"

text \<open>\<open>const remaining = 30 - opsUsed\<close>, and the test \<open>remaining <= 0\<close> (false on \<open>NaN\<close>).\<close>

definition remaining :: "state \<Rightarrow> int option" where
  "remaining s = map_option (\<lambda>u. 30 - u) (opsUsed s)"

definition le0 :: "int option \<Rightarrow> bool" where
  "le0 r = (case r of None \<Rightarrow> False | Some x \<Rightarrow> x \<le> 0)"

subsection \<open>Handlers\<close>

text \<open>
  The state of the component when it mounts over a given \<open>localStorage\<close>:
  the \<open>useState\<close> initial values.
\<close>

definition mount :: "env \<Rightarrow> (string \<rightharpoonup> string) \<Rightarrow> state" where
  "mount e store =
     \<lparr>img = None, busy = False, error = None,
      options = \<lparr>mode = Photo, style = ''Studio softbox, glossy table, minimal shadows'',
                  customPrompt = [], ratio = R1_1, quality = Standard, watermark = True\<rparr>,
      variants = [], copies = [],
      opsUsed = getOpsUsed e store,
      localStorage = store\<rparr>"

text \<open>
  \<open>onUpload\<close>: the argument is \<open>None\<close> for the missing file that \<open>!file\<close> guards
  against. The handler has no \<open>try\<close>: when \<open>fileToDataUrl\<close> rejects, nothing after
  the \<open>await\<close> runs.
\<close>

definition onUpload :: "env \<Rightarrow> upload option \<Rightarrow> state \<Rightarrow> state" where
  "onUpload e file s =
     (let s1 = s\<lparr>error := None\<rparr>
      in case file of
           None \<Rightarrow> s1\<lparr>error := Some ''Unggah file gambar (PNG/JPG)''\<rparr>
         | Some f \<Rightarrow>
             if \<not> startsWith (ftype f) ''image/''
             then s1\<lparr>error := Some ''Unggah file gambar (PNG/JPG)''\<rparr>
             else (case fileToDataUrl e f of
                     Inl err \<Rightarrow> s1
                   | Inr dataUrl \<Rightarrow> s1\<lparr>img := Some dataUrl\<rparr>))"

text \<open>
  \<open>runGenerate\<close>: \<open>generateFailed\<close> is the \<open>catch\<close> and \<open>finally\<close> of the handler,
  run on the state the \<open>try\<close> block had reached. An image, once set, is a data URL
  and so never the empty string: \<open>!img\<close> is \<open>img = None\<close>.
\<close>

definition generateFailed :: "state \<Rightarrow> js_error \<Rightarrow> state" where
  "generateFailed s err =
     s\<lparr>error := Some (if message err = [] then ''Gagal generate.'' else message err),
       busy := False\<rparr>"

definition runGenerate :: "env \<Rightarrow> state \<Rightarrow> state" where
  "runGenerate e s =
     (let s1 = s\<lparr>busy := True, error := None\<rparr>
      in case img s of
           None \<Rightarrow> generateFailed s1 (Error ''Harap unggah foto produk dulu.'')
         | Some src \<Rightarrow>
             if le0 (remaining s)
             then generateFailed s1 (Error ''Batas 30 operasi/hari tercapai.'')
             else (case generateVariants e src (options s) of
                     Inl err \<Rightarrow> generateFailed s1 err
                   | Inr out \<Rightarrow>
                       (let s2 = s1\<lparr>variants := out\<rparr>;
                            s3 = s2\<lparr>copies := buildCopies (options s)\<rparr>;
                            s4 = incOpsUsed e 1 s3
                        in s4\<lparr>busy := False\<rparr>)))"

text \<open>
  \<open>Promise.all\<close>: the results in order, or a rejection. Every rejection that can
  reach it in this program carries the same message, so which one wins is immaterial;
  the model takes the first in list order.
\<close>

fun Promise_all :: "(js_error + 'a) list \<Rightarrow> js_error + 'a list" where
  "Promise_all [] = Inr []"
| "Promise_all (Inl err # ps) = Inl err"
| "Promise_all (Inr x # ps) =
     (case Promise_all ps of Inl err \<Rightarrow> Inl err | Inr xs \<Rightarrow> Inr (x # xs))"

definition doUpscale :: "env \<Rightarrow> state \<Rightarrow> state" where
  "doUpscale e s =
     (let s1 = s\<lparr>busy := True\<rparr>
      in case Promise_all (map (upscale2x e) (variants s)) of
           Inr up \<Rightarrow> s1\<lparr>variants := up, busy := False\<rparr>
         | Inl err \<Rightarrow> s1\<lparr>error := Some (message err), busy := False\<rparr>)"

text \<open>
  \<open>exportAll\<close> changes no state but \<open>busy\<close>; its effect is the list of downloads it
  triggers. An entry of the archive and the blob of a single download are kept as the
  variant they are made from, so \<open>dataURLtoBlob\<close> and \<open>triggerDownload\<close> cannot fail
  here and the outer \<open>catch\<close> of the handler is never entered; the inner one is the
  \<open>else\<close> branch.
\<close>

datatype blob = ZipBlob "(string \<times> data_url) list" | ImageBlob data_url

record download =
  payload :: blob
  filename :: string

definition exportAll :: "env \<Rightarrow> state \<Rightarrow> state \<times> download list" where
  "exportAll e s =
     (let s1 = s\<lparr>busy := True\<rparr>;
          entries = map (\<lambda>(i, v). (''productpro_'' @ js_String (int i + 1) @ ''.png'', v))
                      (enumerate 0 (variants s))
      in if zipOk e entries
         then (s1\<lparr>busy := False\<rparr>,
               [\<lparr>payload = ZipBlob entries,
                 filename = ''ProductPro_'' @ js_String (now e) @ ''.zip''\<rparr>])
         else (s1\<lparr>busy := False\<rparr>,
               map (\<lambda>(n, v). \<lparr>payload = ImageBlob v, filename = n\<rparr>) entries))"

definition clearAll :: "state \<Rightarrow> state" where
  "clearAll s = s\<lparr>variants := [], copies := []\<rparr>"

text \<open>The two inline handlers: the button that removes the image, and \<open>setOptions\<close>.\<close>

definition removeImage :: "state \<Rightarrow> state" where
  "removeImage s = s\<lparr>img := None\<rparr>"

definition setOptions :: "GenOptions \<Rightarrow> state \<Rightarrow> state" where
  "setOptions opts s = s\<lparr>options := opts\<rparr>"



subsection \<open>Reachable states\<close>

text \<open>
  One page on one calendar day: the component mounts over a store in which today's
  counter reads 0 (today's key is absent, say); then any handler runs any number of
  times, in any order, whether or not its button is enabled, and the page may be
  reloaded, which mounts the component again over the store as it is.
\<close>

inductive_set reachable :: "env \<Rightarrow> state set" for e :: env where
  mounted: "getOpsUsed e store = Some 0 \<Longrightarrow> mount e store \<in> reachable e"
| uploaded: "s \<in> reachable e \<Longrightarrow> onUpload e file s \<in> reachable e"
| generated: "s \<in> reachable e \<Longrightarrow> runGenerate e s \<in> reachable e"
| upscaled: "s \<in> reachable e \<Longrightarrow> doUpscale e s \<in> reachable e"
| exported: "s \<in> reachable e \<Longrightarrow> fst (exportAll e s) \<in> reachable e"
| cleared: "s \<in> reachable e \<Longrightarrow> clearAll s \<in> reachable e"
| removed: "s \<in> reachable e \<Longrightarrow> removeImage s \<in> reachable e"
| optioned: "s \<in> reachable e \<Longrightarrow> setOptions opts s \<in> reachable e"
| remounted: "s \<in> reachable e \<Longrightarrow> mount e (localStorage s) \<in> reachable e"

subsection \<open>Reading a result\<close>

text \<open>The canvases behind the variants of a result, and what was drawn on a canvas.\<close>

fun canvasOf :: "data_url \<Rightarrow> canvas option" where
  "canvasOf (Png c) = Some c"
| "canvasOf (FileData t b) = None"

fun canvases :: "js_error + data_url list \<Rightarrow> canvas list" where
  "canvases (Inl err) = []"
| "canvases (Inr vs) = List.map_filter canvasOf vs"

fun filterOf :: "draw_op \<Rightarrow> string option" where
  "filterOf (DrawImage f a im x y w h) = Some f"
| "filterOf (FillRect fs x y w h) = None"
| "filterOf (FillText fs font a t x y) = None"

definition appliedFilters :: "canvas \<Rightarrow> string list" where
  "appliedFilters c = List.map_filter filterOf (ops c)"

text \<open>
  The watermark is the one text drawn in the fill style \<open>hexWithAlpha("#ffffff", 0.7)\<close>
  and reading \<open>ProductPro\<close>; the texts of poster mode are drawn in \<open>#fff\<close>.
\<close>

fun isWatermark :: "draw_op \<Rightarrow> bool" where
  "isWatermark (FillText fs font a t x y) =
     (fs = hexWithAlpha ''#ffffff'' (7 / 10) \<and> t = ''ProductPro'')"
| "isWatermark (FillRect fs x y w h) = False"
| "isWatermark (DrawImage f a im x y w h) = False"


subsection \<open>The invariant of the counter\<close>

text \<open>
  The counter of the state is an integer from 0 to 30, and reading today's key of the
  store gives the same integer.
\<close>

definition counter_ok :: "env \<Rightarrow> state \<Rightarrow> bool" where
  "counter_ok e s =
     (\<exists>n. opsUsed s = Some n \<and> 0 \<le> n \<and> n \<le> 30 \<and> getOpsUsed e (localStorage s) = Some n)"

subsection \<open>The specification's words\<close>

text \<open>
  The canvas size as the specification words it: the table entry scaled by the
  quality multiplier 1, 1.3 or 1.6, with nothing said of rounding.
\<close>

definition spec_canvas_size :: "GenOptions \<Rightarrow> rat \<times> rat" where
  "spec_canvas_size opts =
     (let m = (case quality opts of Standard \<Rightarrow> 1 | High \<Rightarrow> 13 / 10 | Ultra \<Rightarrow> 16 / 10);
          entry = (case ratio opts of
                     R1_1 \<Rightarrow> (1024, 1024) | R4_5 \<Rightarrow> (1024, 1280)
                   | R16_9 \<Rightarrow> (1280, 720) | R9_16 \<Rightarrow> (1080, 1920))
      in (fst entry * m, snd entry * m))"



subsection \<open>Sample inputs\<close>

text \<open>
  A browser in which every file can be read, an uploaded file decodes to an 800 by 600
  image when its type is an image type, a canvas encoding decodes to an image of the
  size of the canvas, every character is ten units wide, and the archive can be built;
  the day is 2 November 2026.
\<close>

definition env0 :: env where
  "env0 =
     \<lparr>today = \<lparr>getFullYear = 2026, getMonth = 10, getDate = 2\<rparr>,
      now = 1793577600000,
      readable = (\<lambda>f. True),
      decode = (\<lambda>u. case u of
                      FileData t b \<Rightarrow>
                        if startsWith t ''image/'' then Some \<lparr>width = 800, height = 600\<rparr>
                        else None
                    | Png c \<Rightarrow> Some \<lparr>width = cwidth c, height = cheight c\<rparr>),
      measureText = (\<lambda>font t. 10 * of_nat (length t)),
      zipOk = (\<lambda>entries. True)\<rparr>"


definition envUnreadable :: env where
  "envUnreadable = env0\<lparr>readable := (\<lambda>f. False)\<rparr>"



definition pngFile :: upload where
  "pngFile = \<lparr>ftype = ''image/png'', bytes = ''product''\<rparr>"

definition textFile :: upload where
  "textFile = \<lparr>ftype = ''text/plain'', bytes = ''notes''\<rparr>"

definition photo0 :: data_url where
  "photo0 = FileData ''image/png'' ''product''"

text \<open>The default options, and the default options at quality \<open>high\<close>.\<close>

definition opts0 :: GenOptions where
  "opts0 = options (mount env0 Map.empty)"

definition optsHigh :: GenOptions where
  "optsHigh = opts0\<lparr>quality := High\<rparr>"

definition optsPosterPlain :: GenOptions where
  "optsPosterPlain = opts0\<lparr>mode := Poster, style := ''ProductPro'', watermark := False\<rparr>"

text \<open>
  Three states: the page just mounted over an empty store; the page after an upload
  and one generation; and a page whose counter stands at 30 with no image uploaded.
\<close>

definition fresh :: state where
  "fresh = mount env0 Map.empty"

definition generatedOnce :: state where
  "generatedOnce = runGenerate env0 (onUpload env0 (Some pngFile) fresh)"

definition exhaustedNoImage :: state where
  "exhaustedNoImage = mount env0 [keyForToday env0 \<mapsto> ''30'']"

section \<open>Properties\<close>

subsection \<open>Arithmetic helpers\<close>

lemma floor_rat_numeral_div:
  "\<lfloor>(numeral a :: rat) / numeral b\<rfloor> = numeral a div numeral b"
  by (metis floor_divide_of_int_eq of_int_numeral)


subsection \<open>Printing and reading the counter\<close>

lemma digit_cases:
  assumes "d < (10 :: nat)"
  shows "d = 0 \<or> d = 1 \<or> d = 2 \<or> d = 3 \<or> d = 4 \<or> d = 5 \<or> d = 6 \<or> d = 7 \<or> d = 8 \<or> d = 9"
  using assms by arith

lemma digitVal_digitChar:
  assumes "d < 10"
  shows "digitVal (digitChar d) = Some d"
  using digit_cases [OF assms] by (elim disjE) (simp_all add: digitVal_def digitChar_def)


lemma digitChar_not_sign:
  assumes "d < 10"
  shows "digitChar d \<noteq> CHR ''-'' \<and> digitChar d \<noteq> CHR ''+''"
  using digit_cases [OF assms] by (elim disjE) (simp_all add: digitChar_def)

lemma digitsVal_append:
  "digitsVal (xs @ ys) acc =
     (case digitsVal xs acc of None \<Rightarrow> None | Some a \<Rightarrow> digitsVal ys a)"
  by (induction xs arbitrary: acc) (auto split: option.splits)

lemma digitsVal_decimal: "digitsVal (decimal n) 0 = Some n"
proof (induction n rule: decimal.induct)
  case (1 n)
  show ?case
  proof (cases "n < 10")
    case True
    then show ?thesis
      by (subst decimal.simps) (simp add: digitVal_digitChar)
  next
    case False
    then have "digitsVal (decimal (n div 10)) 0 = Some (n div 10)"
      by (rule "1.IH")
    with False show ?thesis
      by (subst decimal.simps) (simp add: digitsVal_append digitVal_digitChar)
  qed
qed

lemma decimal_Cons: "\<exists>d ds. decimal n = digitChar d # ds \<and> d < 10"
proof (induction n rule: decimal.induct)
  case (1 n)
  show ?case
  proof (cases "n < 10")
    case True
    then show ?thesis
      by (subst decimal.simps) auto
  next
    case False
    then obtain d ds where "decimal (n div 10) = digitChar d # ds" and "d < 10"
      using "1.IH" by blast
    with False show ?thesis
      by (subst decimal.simps) auto
  qed
qed


lemma js_Number_decimal: "js_Number (decimal n) = Some (int n)"
proof -
  obtain d ds where eq: "decimal n = digitChar d # ds" and d: "d < 10"
    using decimal_Cons by blast
  have "digitsVal (digitChar d # ds) 0 = Some n"
    using digitsVal_decimal [of n] by (simp only: eq)
  then show ?thesis
    using digitChar_not_sign [OF d] by (simp add: js_Number_def eq del: digitsVal.simps)
qed

lemma js_String_nonempty: "js_String v \<noteq> []"
  using decimal_Cons [of "nat v"] by (auto simp: js_String_def)

lemma js_Number_js_String: "js_Number (js_String v) = Some v"
proof (cases "v < 0")
  case True
  obtain d ds where eq: "decimal (nat (- v)) = digitChar d # ds"
    using decimal_Cons by blast
  have "digitsVal (digitChar d # ds) 0 = Some (nat (- v))"
    using digitsVal_decimal [of "nat (- v)"] by (simp only: eq)
  with True show ?thesis
    by (simp add: js_String_def js_Number_def eq del: digitsVal.simps)
next
  case False
  then show ?thesis
    by (simp add: js_String_def js_Number_decimal)
qed






lemma small_decimals:
  "js_String 1 = ''1''" "js_String 2 = ''2''" "js_String 3 = ''3''" "js_String 4 = ''4''"
  by (simp_all add: js_String_def decimal.simps digitChar_def)


subsection \<open>What \<open>generateVariants\<close> returns\<close>

lemma variantLoop_four:
  "variantLoop e base opts ps 0 [] =
     [Png (drawVariant e base opts ps 0), Png (drawVariant e base opts ps 1),
      Png (drawVariant e base opts ps 2), Png (drawVariant e base opts ps 3)]"
  by (simp add: variantLoop.simps numeral_2_eq_2 numeral_3_eq_3)

lemma generateVariants_decoded:
  assumes "decode e src = Some base"
  shows "generateVariants e src opts =
           Inr [Png (drawVariant e base opts (buildPresetFilters opts) 0),
                Png (drawVariant e base opts (buildPresetFilters opts) 1),
                Png (drawVariant e base opts (buildPresetFilters opts) 2),
                Png (drawVariant e base opts (buildPresetFilters opts) 3)]"
  using assms by (simp add: generateVariants_def loadImage_def variantLoop_four)

lemma generateVariants_undecoded:
  assumes "decode e src = None"
  shows "generateVariants e src opts = Inl (Error ''Gagal memuat gambar.'')"
  using assms by (simp add: generateVariants_def loadImage_def)

lemma generateVariants_Inr:
  assumes "generateVariants e src opts = Inr vs"
  obtains base where "decode e src = Some base"
    and "vs = [Png (drawVariant e base opts (buildPresetFilters opts) 0),
                Png (drawVariant e base opts (buildPresetFilters opts) 1),
                Png (drawVariant e base opts (buildPresetFilters opts) 2),
                Png (drawVariant e base opts (buildPresetFilters opts) 3)]"
proof (cases "decode e src")
  case None
  with assms show ?thesis by (simp add: generateVariants_undecoded)
next
  case (Some base)
  with assms that show ?thesis by (simp add: generateVariants_decoded)
qed

lemma gridLoop_filterOf:
  "List.map_filter filterOf (gridLoop opts gx acc) = List.map_filter filterOf acc"
proof (induction opts gx acc rule: gridLoop.induct)
  case (1 opts gx acc)
  show ?case
  proof (cases "gx < cw opts - pad opts")
    case True
    then show ?thesis
      using "1.IH" by (subst gridLoop.simps) (simp add: List.map_filter_def)
  next
    case False
    then show ?thesis by (subst gridLoop.simps) simp
  qed
qed

lemma gridLoop_isWatermark:
  "filter isWatermark (gridLoop opts gx acc) = filter isWatermark acc"
proof (induction opts gx acc rule: gridLoop.induct)
  case (1 opts gx acc)
  show ?case
  proof (cases "gx < cw opts - pad opts")
    case True
    then show ?thesis
      using "1.IH" by (subst gridLoop.simps) simp
  next
    case False
    then show ?thesis by (subst gridLoop.simps) simp
  qed
qed

lemma drawVariant_size:
  "cwidth (drawVariant e base opts ps i) = cw opts"
  "cheight (drawVariant e base opts ps i) = ch opts"
  by (simp_all add: drawVariant_def Let_def)

lemma map_filter_append:
  "List.map_filter f (xs @ ys) = List.map_filter f xs @ List.map_filter f ys"
  by (simp add: List.map_filter_def)

lemma drawVariant_filters:
  "appliedFilters (drawVariant e base opts ps i) = [pfilter (ps ! (i mod length ps))]"
  by (simp add: drawVariant_def appliedFilters_def Let_def map_filter_append
      map_filter_simps gridLoop_filterOf)

lemma watermark_style: "hexWithAlpha ''#ffffff'' (7 / 10) = Rgba (Some 255) (Some 255) (Some 255) (7 / 10)"
  by (simp add: hexWithAlpha_def parseInt16_def hexVal_def isSpace_def)

lemma drawVariant_watermark:
  "filter isWatermark (ops (drawVariant e base opts ps i)) =
     (if watermark opts
      then [FillText (Rgba (Some 255) (Some 255) (Some 255) (7 / 10))
              (js_String (Math_round (of_int (cw opts) * (18 / 1000))) @ ''px sans-serif'')
              1 ''ProductPro''
              (of_int (cw opts)
                 - measureText e (js_String (Math_round (of_int (cw opts) * (18 / 1000))) @ ''px sans-serif'') ''ProductPro''
                 - of_int (pad opts))
              (of_int (ch opts - pad opts))]
      else [])"
  by (simp add: drawVariant_def Let_def gridLoop_isWatermark watermark_style)

lemma cw_spec: "cw opts = Math_round (fst (spec_canvas_size opts))"
  by (cases "ratio opts"; cases "quality opts")
     (simp_all add: cw_def qualityScale_def spec_canvas_size_def)

lemma ch_spec: "ch opts = Math_round (snd (spec_canvas_size opts))"
  by (cases "ratio opts"; cases "quality opts")
     (simp_all add: ch_def qualityScale_def spec_canvas_size_def)

lemma buildPresetFilters_names:
  "map pname (buildPresetFilters opts) =
     (if mode opts = Poster then [''matte'', ''pop'', ''moody'', ''clean'']
      else [''clean'', ''moody'', ''pop'', ''matte''])"
  by (simp add: buildPresetFilters_def)

lemma buildPresetFilters_length: "length (buildPresetFilters opts) = 4"
  by (simp add: buildPresetFilters_def Let_def)

subsection \<open>The outcomes of \<open>runGenerate\<close>\<close>

lemma generateFailed_intact:
  "img (generateFailed s err) = img s" "variants (generateFailed s err) = variants s"
  "copies (generateFailed s err) = copies s" "opsUsed (generateFailed s err) = opsUsed s"
  "localStorage (generateFailed s err) = localStorage s"
  "busy (generateFailed s err) = False"
  "error (generateFailed s err)
     = Some (if message err = [] then ''Gagal generate.'' else message err)"
  by (simp_all add: generateFailed_def)

lemma getOpsUsed_absent:
  "store (keyForToday e) = None \<Longrightarrow> getOpsUsed e store = Some 0"
  by (simp add: getOpsUsed_def js_Number_def digitVal_def)

lemma incOpsUsed_counter:
  assumes "getOpsUsed e (localStorage s) = Some k"
  shows "opsUsed (incOpsUsed e n s) = Some (k + n)"
    and "localStorage (incOpsUsed e n s) = (localStorage s)(keyForToday e \<mapsto> js_String (k + n))"
    and "getOpsUsed e (localStorage (incOpsUsed e n s)) = Some (k + n)"
  using assms
  by (simp_all add: incOpsUsed_def String_counter_def getOpsUsed_def
      js_String_nonempty js_Number_js_String)

lemma incOpsUsed_other:
  "img (incOpsUsed e n s) = img s" "variants (incOpsUsed e n s) = variants s"
  "copies (incOpsUsed e n s) = copies s" "error (incOpsUsed e n s) = error s"
  "busy (incOpsUsed e n s) = busy s" "options (incOpsUsed e n s) = options s"
  by (simp_all add: incOpsUsed_def Let_def)




lemma runGenerate_success:
  assumes "img s = Some src" and "\<not> le0 (remaining s)" and "decode e src = Some base"
  shows "runGenerate e s
           = (incOpsUsed e 1
                (s\<lparr>busy := True, error := None,
                   variants := [Png (drawVariant e base (options s) (buildPresetFilters (options s)) 0),
                                Png (drawVariant e base (options s) (buildPresetFilters (options s)) 1),
                                Png (drawVariant e base (options s) (buildPresetFilters (options s)) 2),
                                Png (drawVariant e base (options s) (buildPresetFilters (options s)) 3)],
                   copies := buildCopies (options s)\<rparr>))\<lparr>busy := False\<rparr>"
  using assms by (simp add: runGenerate_def generateVariants_decoded)





subsection \<open>The outcomes of \<open>doUpscale\<close> and \<open>exportAll\<close>\<close>

lemma upscale2x_decoded:
  assumes "decode e v = Some im"
  shows "upscale2x e v =
           Inr (Png \<lparr>cwidth = width im * 2, cheight = height im * 2,
                     ops = [DrawImage ''none'' 1 im (Fin 0) (Fin 0)
                              (Fin (of_int (width im * 2))) (Fin (of_int (height im * 2)))]\<rparr>)"
  using assms by (simp add: upscale2x_def loadImage_def)



lemma Promise_all_Inr: "Promise_all ps = Inr xs \<longleftrightarrow> ps = map Inr xs"
proof (induction ps arbitrary: xs)
  case Nil
  then show ?case by auto
next
  case (Cons p ps)
  show ?case
  proof (cases p)
    case (Inl err)
    then show ?thesis by auto
  next
    case (Inr x)
    with Cons.IH show ?thesis
      by (cases "Promise_all ps") (auto simp: Cons_eq_map_conv)
  qed
qed

lemma Promise_all_Inl:
  assumes "Promise_all ps = Inl err"
  shows "Inl err \<in> set ps"
  using assms
proof (induction ps)
  case Nil
  then show ?case by simp
next
  case (Cons p ps)
  then show ?case
    by (cases p) (auto split: sum.splits)
qed

lemma doUpscale_all_decoded:
  assumes "\<forall>v \<in> set (variants s). decode e v \<noteq> None"
  shows "length (variants (doUpscale e s)) = length (variants s)"
    and "\<forall>i < length (variants s). upscale2x e (variants s ! i) = Inr (variants (doUpscale e s) ! i)"
proof -
  have "\<exists>up. Promise_all (map (upscale2x e) (variants s)) = Inr up"
  proof (cases "Promise_all (map (upscale2x e) (variants s))")
    case (Inl err)
    then have "Inl err \<in> set (map (upscale2x e) (variants s))"
      by (rule Promise_all_Inl)
    then obtain v where "v \<in> set (variants s)" and "upscale2x e v = Inl err"
      by auto
    with assms show ?thesis
      by (cases "decode e v") (auto simp: upscale2x_decoded)
  next
    case (Inr up)
    then show ?thesis by blast
  qed
  then obtain up where up: "Promise_all (map (upscale2x e) (variants s)) = Inr up"
    by blast
  then have m: "map (upscale2x e) (variants s) = map Inr up"
    by (simp add: Promise_all_Inr)
  have v: "variants (doUpscale e s) = up"
    by (simp add: doUpscale_def up)
  from m have len: "length up = length (variants s)"
    by (metis length_map)
  show "length (variants (doUpscale e s)) = length (variants s)"
    by (simp add: v len)
  show "\<forall>i < length (variants s). upscale2x e (variants s ! i) = Inr (variants (doUpscale e s) ! i)"
  proof (intro allI impI)
    fix i
    assume i: "i < length (variants s)"
    then have "map (upscale2x e) (variants s) ! i = map Inr up ! i"
      by (simp only: m)
    with i len show "upscale2x e (variants s ! i) = Inr (variants (doUpscale e s) ! i)"
      by (simp add: v)
  qed
qed




subsection \<open>The sample inputs\<close>

text \<open>The sample session is a mount, an upload and one generation; its counter is 1.\<close>

lemma decode_photo0: "decode env0 photo0 = Some \<lparr>width = 800, height = 600\<rparr>"
  by (simp add: env0_def photo0_def startsWith_def)

lemma decode_env0_Png: "decode env0 (Png c) = Some \<lparr>width = cwidth c, height = cheight c\<rparr>"
  by (simp add: env0_def)

lemma keyForToday_env0: "keyForToday env0 = ''pp_ops_2026-11-02''"
  by (simp add: keyForToday_def env0_def js_String_def decimal.simps digitChar_def padStart_def)



lemma optsHigh_simps:
  "mode optsHigh = Photo" "ratio optsHigh = R1_1" "quality optsHigh = High" "watermark optsHigh"
  by (simp_all add: optsHigh_def opts0_def mount_def)

lemma spec_canvas_size_optsHigh: "spec_canvas_size optsHigh = (6656 / 5, 6656 / 5)"
  by (simp add: spec_canvas_size_def optsHigh_simps)

lemma optsPosterPlain_simps:
  "mode optsPosterPlain = Poster" "ratio optsPosterPlain = R1_1"
  "quality optsPosterPlain = Standard" "\<not> watermark optsPosterPlain"
  "style optsPosterPlain = ''ProductPro''"
  by (simp_all add: optsPosterPlain_def opts0_def mount_def)

lemma cw_optsPosterPlain:
  "cw optsPosterPlain = 1024" "ch optsPosterPlain = 1024" "pad optsPosterPlain = 82"
  by (simp_all add: cw_def ch_def pad_def qualityScale_def Math_round_def optsPosterPlain_simps
      floor_rat_numeral_div)

lemma fresh_simps:
  "img fresh = None" "error fresh = None" "variants fresh = []" "copies fresh = []"
  "opsUsed fresh = Some 0" "localStorage fresh = Map.empty" "options fresh = opts0"
  by (simp_all add: fresh_def mount_def opts0_def getOpsUsed_absent)

lemma onUpload_pngFile:
  "onUpload env0 (Some pngFile) s = s\<lparr>error := None, img := Some photo0\<rparr>"
  by (simp add: onUpload_def pngFile_def photo0_def startsWith_def fileToDataUrl_def env0_def)

lemma generatedOnce_eq:
  "generatedOnce =
     (incOpsUsed env0 1
        (fresh\<lparr>error := None, img := Some photo0, busy := True, error := None,
           variants := [Png (drawVariant env0 \<lparr>width = 800, height = 600\<rparr> opts0 (buildPresetFilters opts0) 0),
                        Png (drawVariant env0 \<lparr>width = 800, height = 600\<rparr> opts0 (buildPresetFilters opts0) 1),
                        Png (drawVariant env0 \<lparr>width = 800, height = 600\<rparr> opts0 (buildPresetFilters opts0) 2),
                        Png (drawVariant env0 \<lparr>width = 800, height = 600\<rparr> opts0 (buildPresetFilters opts0) 3)],
           copies := buildCopies opts0\<rparr>))\<lparr>busy := False\<rparr>"
proof -
  let ?s = "fresh\<lparr>error := None, img := Some photo0\<rparr>"
  have "runGenerate env0 ?s
           = (incOpsUsed env0 1
                (?s\<lparr>busy := True, error := None,
                   variants := [Png (drawVariant env0 \<lparr>width = 800, height = 600\<rparr> (options ?s) (buildPresetFilters (options ?s)) 0),
                                Png (drawVariant env0 \<lparr>width = 800, height = 600\<rparr> (options ?s) (buildPresetFilters (options ?s)) 1),
                                Png (drawVariant env0 \<lparr>width = 800, height = 600\<rparr> (options ?s) (buildPresetFilters (options ?s)) 2),
                                Png (drawVariant env0 \<lparr>width = 800, height = 600\<rparr> (options ?s) (buildPresetFilters (options ?s)) 3)],
                   copies := buildCopies (options ?s)\<rparr>))\<lparr>busy := False\<rparr>"
    by (rule runGenerate_success [where src = photo0])
       (simp_all add: remaining_def le0_def fresh_simps decode_photo0)
  then show ?thesis
    by (simp add: generatedOnce_def onUpload_pngFile fresh_simps)
qed

lemma generatedOnce_simps:
  "variants generatedOnce =
     [Png (drawVariant env0 \<lparr>width = 800, height = 600\<rparr> opts0 (buildPresetFilters opts0) 0),
      Png (drawVariant env0 \<lparr>width = 800, height = 600\<rparr> opts0 (buildPresetFilters opts0) 1),
      Png (drawVariant env0 \<lparr>width = 800, height = 600\<rparr> opts0 (buildPresetFilters opts0) 2),
      Png (drawVariant env0 \<lparr>width = 800, height = 600\<rparr> opts0 (buildPresetFilters opts0) 3)]"
  "error generatedOnce = None" "img generatedOnce = Some photo0"
  "opsUsed generatedOnce = Some 1"
  "localStorage generatedOnce = [''pp_ops_2026-11-02'' \<mapsto> ''1'']"
  "options generatedOnce = opts0"
proof -
  have g: "getOpsUsed env0 (localStorage (fresh\<lparr>error := None, img := Some photo0, busy := True, error := None,
           variants := [Png (drawVariant env0 \<lparr>width = 800, height = 600\<rparr> opts0 (buildPresetFilters opts0) 0),
                        Png (drawVariant env0 \<lparr>width = 800, height = 600\<rparr> opts0 (buildPresetFilters opts0) 1),
                        Png (drawVariant env0 \<lparr>width = 800, height = 600\<rparr> opts0 (buildPresetFilters opts0) 2),
                        Png (drawVariant env0 \<lparr>width = 800, height = 600\<rparr> opts0 (buildPresetFilters opts0) 3)],
           copies := buildCopies opts0\<rparr>)) = Some 0"
    by (simp add: fresh_simps getOpsUsed_absent)
  show "variants generatedOnce =
     [Png (drawVariant env0 \<lparr>width = 800, height = 600\<rparr> opts0 (buildPresetFilters opts0) 0),
      Png (drawVariant env0 \<lparr>width = 800, height = 600\<rparr> opts0 (buildPresetFilters opts0) 1),
      Png (drawVariant env0 \<lparr>width = 800, height = 600\<rparr> opts0 (buildPresetFilters opts0) 2),
      Png (drawVariant env0 \<lparr>width = 800, height = 600\<rparr> opts0 (buildPresetFilters opts0) 3)]"
    by (simp add: generatedOnce_eq incOpsUsed_other)
  show "error generatedOnce = None"
    by (simp add: generatedOnce_eq incOpsUsed_other)
  show "img generatedOnce = Some photo0"
    by (simp add: generatedOnce_eq incOpsUsed_other)
  show "opsUsed generatedOnce = Some 1"
    using incOpsUsed_counter(1) [OF g, of 1] by (simp add: generatedOnce_eq)
  show "localStorage generatedOnce = [''pp_ops_2026-11-02'' \<mapsto> ''1'']"
    using incOpsUsed_counter(2) [OF g, of 1]
    by (simp add: generatedOnce_eq fresh_simps keyForToday_env0 small_decimals)
  show "options generatedOnce = opts0"
    by (simp add: generatedOnce_eq incOpsUsed_other fresh_simps)
qed

lemma generatedOnce_reachable: "generatedOnce \<in> reachable env0"
  unfolding generatedOnce_def fresh_def
  by (intro reachable.generated reachable.uploaded reachable.mounted)
     (simp add: getOpsUsed_absent)

lemma exhaustedNoImage_simps:
  "img exhaustedNoImage = None" "opsUsed exhaustedNoImage = Some 30"
  "variants exhaustedNoImage = []" "copies exhaustedNoImage = []"
  by (simp_all add: exhaustedNoImage_def mount_def getOpsUsed_def js_Number_def digitVal_def)



section \<open>The claims\<close>

subsection \<open>Generation at an exhausted quota\<close>

text \<open>
  C1, as amended. In every session state whose remaining quota, 30 minus the counter, is
  at most 0, \<open>runGenerate\<close> is blocked: it ends with a user-visible error, which is the
  quota error when an image has been uploaded and the no-image error when none has;
  the variants and the copies are what they were, and the counter is not incremented,
  in the state or in the store.
\<close>

theorem runGenerate_blocked_at_quota:
  assumes "le0 (remaining s)"
  shows "error (runGenerate e s)
           = Some (if img s = None then ''Harap unggah foto produk dulu.''
                   else ''Batas 30 operasi/hari tercapai.'')
         \<and> variants (runGenerate e s) = variants s
         \<and> copies (runGenerate e s) = copies s
         \<and> opsUsed (runGenerate e s) = opsUsed s
         \<and> localStorage (runGenerate e s) = localStorage s
         \<and> img (runGenerate e s) = img s"
  using assms by (cases "img s") (simp_all add: runGenerate_def generateFailed_intact)

text \<open>The same exhausted counter with an image uploaded: the quota error.\<close>

theorem runGenerate_blocked_at_quota_witness:
  "le0 (remaining (onUpload env0 (Some pngFile) exhaustedNoImage))
   \<and> error (runGenerate env0 (onUpload env0 (Some pngFile) exhaustedNoImage))
       = Some ''Batas 30 operasi/hari tercapai.''
   \<and> variants (runGenerate env0 (onUpload env0 (Some pngFile) exhaustedNoImage)) = []
   \<and> copies (runGenerate env0 (onUpload env0 (Some pngFile) exhaustedNoImage)) = []
   \<and> opsUsed (runGenerate env0 (onUpload env0 (Some pngFile) exhaustedNoImage)) = Some 30"
proof -
  have q: "le0 (remaining (onUpload env0 (Some pngFile) exhaustedNoImage))"
    by (simp add: onUpload_pngFile remaining_def le0_def exhaustedNoImage_simps)
  from runGenerate_blocked_at_quota [OF q, of env0] q show ?thesis
    by (simp add: onUpload_pngFile exhaustedNoImage_simps)
qed

text \<open>
  C1 as stated fails in a state with the counter at 30 and no image uploaded: the
  first guard of \<open>runGenerate\<close> fires, and the error shown is the no-image error, not
  the quota error.
\<close>

theorem runGenerate_quota_counterexample:
  "le0 (remaining exhaustedNoImage)
   \<and> error (runGenerate env0 exhaustedNoImage) = Some ''Harap unggah foto produk dulu.''
   \<and> error (runGenerate env0 exhaustedNoImage) \<noteq> Some ''Batas 30 operasi/hari tercapai.''"
  by (simp add: runGenerate_def generateFailed_intact exhaustedNoImage_simps remaining_def le0_def)

subsection \<open>Canvas sizes\<close>

text \<open>
  C2, as amended. For every aspect ratio and every quality, each canvas that
  \<open>generateVariants\<close> produces has as its width and height the table entry of the
  ratio scaled by the quality multiplier 1, 1.3 or 1.6 and then rounded to the nearest
  integer (\<open>Math.round\<close>).
\<close>

theorem canvas_size_rounded:
  assumes "generateVariants e src opts = Inr vs" and "v \<in> set vs"
  shows "\<exists>c. v = Png c
             \<and> cwidth c = Math_round (fst (spec_canvas_size opts))
             \<and> cheight c = Math_round (snd (spec_canvas_size opts))"
proof -
  from assms(1) obtain base where
    vs: "vs = [Png (drawVariant e base opts (buildPresetFilters opts) 0),
               Png (drawVariant e base opts (buildPresetFilters opts) 1),
               Png (drawVariant e base opts (buildPresetFilters opts) 2),
               Png (drawVariant e base opts (buildPresetFilters opts) 3)]"
    by (rule generateVariants_Inr)
  with assms(2) obtain i where "v = Png (drawVariant e base opts (buildPresetFilters opts) i)"
    by auto
  then show ?thesis
    by (simp add: drawVariant_size cw_spec ch_spec)
qed

text \<open>Ratio 1:1 at quality \<open>high\<close>: 1024 times 1.3 is 1331.2, and the canvas is 1331 wide.\<close>

theorem canvas_size_rounded_witness:
  "\<exists>vs c. generateVariants env0 photo0 optsHigh = Inr vs \<and> Png c \<in> set vs
          \<and> cwidth c = 1331 \<and> cheight c = 1331"
proof -
  let ?c = "drawVariant env0 \<lparr>width = 800, height = 600\<rparr> optsHigh (buildPresetFilters optsHigh) 0"
  let ?vs = "[Png (drawVariant env0 \<lparr>width = 800, height = 600\<rparr> optsHigh (buildPresetFilters optsHigh) 0),
              Png (drawVariant env0 \<lparr>width = 800, height = 600\<rparr> optsHigh (buildPresetFilters optsHigh) 1),
              Png (drawVariant env0 \<lparr>width = 800, height = 600\<rparr> optsHigh (buildPresetFilters optsHigh) 2),
              Png (drawVariant env0 \<lparr>width = 800, height = 600\<rparr> optsHigh (buildPresetFilters optsHigh) 3)]"
  have gv: "generateVariants env0 photo0 optsHigh = Inr ?vs"
    by (rule generateVariants_decoded [OF decode_photo0])
  have v: "Png ?c \<in> set ?vs"
    by simp
  from canvas_size_rounded [OF gv v]
  have "cwidth ?c = 1331 \<and> cheight ?c = 1331"
    by (simp add: spec_canvas_size_optsHigh Math_round_def floor_rat_numeral_div)
  with gv v show ?thesis
    by blast
qed

text \<open>
  The size does not depend on how the product is rounded before \<open>Math.round\<close> sees
  it: any number within 1/20 of the scaled entry rounds to the same integer, and the
  rounding of a double-precision product of these sizes is far smaller.
\<close>

lemma canvas_size_stable:
  assumes "fst (spec_canvas_size opts) - 1 / 20 \<le> x" and "x \<le> fst (spec_canvas_size opts) + 1 / 20"
    and "snd (spec_canvas_size opts) - 1 / 20 \<le> y" and "y \<le> snd (spec_canvas_size opts) + 1 / 20"
  shows "Math_round x = cw opts" and "Math_round y = ch opts"
proof -
  show "Math_round x = cw opts"
    using assms(1,2)
    by (cases "ratio opts"; cases "quality opts")
       (simp_all add: cw_def qualityScale_def spec_canvas_size_def Math_round_def
          floor_rat_numeral_div floor_eq_iff)
  show "Math_round y = ch opts"
    using assms(3,4)
    by (cases "ratio opts"; cases "quality opts")
       (simp_all add: ch_def qualityScale_def spec_canvas_size_def Math_round_def
          floor_rat_numeral_div floor_eq_iff)
qed

text \<open>
  C2 as stated fails at ratio 1:1 and quality \<open>high\<close>: the four canvases are 1331 by
  1331, while the scaled table entry is 6656/5 = 1331.2.
\<close>

theorem canvas_size_counterexample:
  "map cwidth (canvases (generateVariants env0 photo0 optsHigh)) = [1331, 1331, 1331, 1331]
   \<and> map cheight (canvases (generateVariants env0 photo0 optsHigh)) = [1331, 1331, 1331, 1331]
   \<and> spec_canvas_size optsHigh = (6656 / 5, 6656 / 5)
   \<and> rat_of_int 1331 \<noteq> 6656 / 5"
  by (simp add: generateVariants_decoded [OF decode_photo0] map_filter_simps
      drawVariant_size cw_spec ch_spec spec_canvas_size_optsHigh Math_round_def
      floor_rat_numeral_div)

subsection \<open>Presets\<close>

text \<open>
  C3. Whenever the source image decodes, \<open>generateVariants\<close> returns exactly four
  variants, for every options value. Variant \<open>i\<close> is drawn with the filter of preset
  \<open>i\<close> and no other, in list order; the list is \<open>clean\<close>, \<open>moody\<close>, \<open>pop\<close>,
  \<open>matte\<close>, each filter the base string \<open>contrast(1.05) saturate(1.05)\<close> followed by
  its own suffix, and it is reversed when the mode is \<open>poster\<close>.
\<close>

theorem generateVariants_four_presets:
  assumes "decode e src = Some base"
  shows "\<exists>c0 c1 c2 c3.
           generateVariants e src opts = Inr [Png c0, Png c1, Png c2, Png c3]
         \<and> [appliedFilters c0, appliedFilters c1, appliedFilters c2, appliedFilters c3]
             = map (\<lambda>p. [pfilter p]) (buildPresetFilters opts)
         \<and> buildPresetFilters opts =
             (if mode opts = Poster then rev else id)
               [\<lparr>pname = ''clean'',
                  pfilter = ''contrast(1.05) saturate(1.05)'' @ '' brightness(1.03)''\<rparr>,
                \<lparr>pname = ''moody'',
                  pfilter = ''contrast(1.05) saturate(1.05)'' @ '' brightness(0.92) contrast(1.15)''\<rparr>,
                \<lparr>pname = ''pop'',
                  pfilter = ''contrast(1.05) saturate(1.05)'' @ '' brightness(1.1) saturate(1.25)''\<rparr>,
                \<lparr>pname = ''matte'',
                  pfilter = ''contrast(1.05) saturate(1.05)'' @ '' brightness(1.0) contrast(0.95)''\<rparr>]"
proof -
  let ?ps = "buildPresetFilters opts"
  have len: "length ?ps = 4"
    by (rule buildPresetFilters_length)
  then obtain p0 p1 p2 p3 where ps: "?ps = [p0, p1, p2, p3]"
    by (auto simp: length_Suc_conv numeral_eq_Suc)
  have filters: "[appliedFilters (drawVariant e base opts ?ps 0),
                  appliedFilters (drawVariant e base opts ?ps 1),
                  appliedFilters (drawVariant e base opts ?ps 2),
                  appliedFilters (drawVariant e base opts ?ps 3)]
                 = map (\<lambda>p. [pfilter p]) ?ps"
    unfolding drawVariant_filters by (simp add: ps)
  have table: "?ps = (if mode opts = Poster then rev else id)
               [\<lparr>pname = ''clean'',
                  pfilter = ''contrast(1.05) saturate(1.05)'' @ '' brightness(1.03)''\<rparr>,
                \<lparr>pname = ''moody'',
                  pfilter = ''contrast(1.05) saturate(1.05)'' @ '' brightness(0.92) contrast(1.15)''\<rparr>,
                \<lparr>pname = ''pop'',
                  pfilter = ''contrast(1.05) saturate(1.05)'' @ '' brightness(1.1) saturate(1.25)''\<rparr>,
                \<lparr>pname = ''matte'',
                  pfilter = ''contrast(1.05) saturate(1.05)'' @ '' brightness(1.0) contrast(0.95)''\<rparr>]"
    by (simp add: buildPresetFilters_def)
  have gv: "generateVariants e src opts =
              Inr [Png (drawVariant e base opts ?ps 0), Png (drawVariant e base opts ?ps 1),
                   Png (drawVariant e base opts ?ps 2), Png (drawVariant e base opts ?ps 3)]"
    by (rule generateVariants_decoded [OF assms])
  show ?thesis
    by (rule exI [of _ "drawVariant e base opts ?ps 0"],
        rule exI [of _ "drawVariant e base opts ?ps 1"],
        rule exI [of _ "drawVariant e base opts ?ps 2"],
        rule exI [of _ "drawVariant e base opts ?ps 3"],
        intro conjI, rule gv, rule filters, rule table)
qed

text \<open>Poster mode over the sample photo: the filters come in the order matte, pop, moody, clean.\<close>

theorem generateVariants_four_presets_witness:
  "decode env0 photo0 = Some \<lparr>width = 800, height = 600\<rparr>
   \<and> (\<exists>c0 c1 c2 c3.
          generateVariants env0 photo0 (opts0\<lparr>mode := Poster\<rparr>)
            = Inr [Png c0, Png c1, Png c2, Png c3]
        \<and> [appliedFilters c0, appliedFilters c1, appliedFilters c2, appliedFilters c3]
            = [[''contrast(1.05) saturate(1.05) brightness(1.0) contrast(0.95)''],
               [''contrast(1.05) saturate(1.05) brightness(1.1) saturate(1.25)''],
               [''contrast(1.05) saturate(1.05) brightness(0.92) contrast(1.15)''],
               [''contrast(1.05) saturate(1.05) brightness(1.03)'']])"
proof -
  from generateVariants_four_presets [OF decode_photo0, of "opts0\<lparr>mode := Poster\<rparr>"]
  obtain c0 c1 c2 c3 where
    "generateVariants env0 photo0 (opts0\<lparr>mode := Poster\<rparr>) = Inr [Png c0, Png c1, Png c2, Png c3]"
    and "[appliedFilters c0, appliedFilters c1, appliedFilters c2, appliedFilters c3]
           = map (\<lambda>p. [pfilter p]) (buildPresetFilters (opts0\<lparr>mode := Poster\<rparr>))"
    by (elim exE conjE) (rule that)
  then show ?thesis
    using decode_photo0 by (simp add: buildPresetFilters_def)
qed

subsection \<open>The watermark\<close>



text \<open>
  Poster mode draws the style as a subtitle. With the style \<open>ProductPro\<close> and the
  watermark off, that subtitle reads like the watermark, but it is drawn in \<open>#fff\<close>
  at the bottom left; the watermark itself is absent.
\<close>

lemma poster_subtitle_is_not_watermark:
  "FillText (Colour ''#fff'') ''31px sans-serif'' (8 / 10) ''ProductPro'' 82 (4874 / 5)
     \<in> set (ops (drawVariant e base optsPosterPlain ps i))
   \<and> filter isWatermark (ops (drawVariant e base optsPosterPlain ps i)) = []"
proof -
  have f: "js_String 31 = ''31''"
    by (simp add: js_String_def decimal.simps digitChar_def)
  have "FillText (Colour ''#fff'') ''31px sans-serif'' (8 / 10) ''ProductPro'' 82 (4874 / 5)
          \<in> set (ops (drawVariant e base optsPosterPlain ps i))"
    by (simp add: drawVariant_def Let_def optsPosterPlain_simps cw_optsPosterPlain
        Math_round_def floor_rat_numeral_div f truncate_str_def)
  moreover have "filter isWatermark (ops (drawVariant e base optsPosterPlain ps i)) = []"
    by (simp add: drawVariant_watermark optsPosterPlain_simps)
  ultimately show ?thesis
    by simp
qed

subsection \<open>Upscaling\<close>

text \<open>
  C5. For every variant that decodes to an image of width \<open>w\<close> and height \<open>h\<close>,
  \<open>upscale2x\<close> returns the encoding of a canvas of width exactly \<open>2 * w\<close> and height
  exactly \<open>2 * h\<close>, on which that image is drawn over the whole canvas. When every
  current variant decodes, \<open>doUpscale\<close> replaces the variants by a list of the same
  length whose \<open>i\<close>-th element is \<open>upscale2x\<close> of the \<open>i\<close>-th variant alone.
\<close>

theorem upscale2x_doubles:
  "(decode e v = Some im \<longrightarrow>
      (\<exists>c. upscale2x e v = Inr (Png c)
           \<and> cwidth c = 2 * width im \<and> cheight c = 2 * height im
           \<and> ops c = [DrawImage ''none'' 1 im (Fin 0) (Fin 0)
                        (Fin (of_int (2 * width im))) (Fin (of_int (2 * height im)))]))
   \<and> ((\<forall>u \<in> set (variants s). decode e u \<noteq> None) \<longrightarrow>
        length (variants (doUpscale e s)) = length (variants s)
        \<and> (\<forall>i < length (variants s).
              upscale2x e (variants s ! i) = Inr (variants (doUpscale e s) ! i)))"
proof (intro conjI impI)
  assume "decode e v = Some im"
  then show "\<exists>c. upscale2x e v = Inr (Png c)
           \<and> cwidth c = 2 * width im \<and> cheight c = 2 * height im
           \<and> ops c = [DrawImage ''none'' 1 im (Fin 0) (Fin 0)
                        (Fin (of_int (2 * width im))) (Fin (of_int (2 * height im)))]"
    by (simp add: upscale2x_decoded mult.commute)
next
  assume a: "\<forall>u \<in> set (variants s). decode e u \<noteq> None"
  then show "length (variants (doUpscale e s)) = length (variants s)"
    by (rule doUpscale_all_decoded(1))
  from a show "\<forall>i < length (variants s).
              upscale2x e (variants s ! i) = Inr (variants (doUpscale e s) ! i)"
    by (rule doUpscale_all_decoded(2))
qed

text \<open>A 1024 by 1280 canvas becomes 2048 by 2560; the four sample variants stay four.\<close>

theorem upscale2x_doubles_witness:
  "decode env0 (Png \<lparr>cwidth = 1024, cheight = 1280, ops = []\<rparr>)
     = Some \<lparr>width = 1024, height = 1280\<rparr>
   \<and> (\<exists>c. upscale2x env0 (Png \<lparr>cwidth = 1024, cheight = 1280, ops = []\<rparr>) = Inr (Png c)
          \<and> cwidth c = 2048 \<and> cheight c = 2560)
   \<and> length (variants (doUpscale env0 generatedOnce)) = 4
   \<and> upscale2x env0 (variants generatedOnce ! 0) = Inr (variants (doUpscale env0 generatedOnce) ! 0)"
proof -
  let ?v = "Png \<lparr>cwidth = 1024, cheight = 1280, ops = []\<rparr>"
  have d: "decode env0 ?v = Some \<lparr>width = 1024, height = 1280\<rparr>"
    by (simp add: decode_env0_Png)
  have a: "\<forall>u \<in> set (variants generatedOnce). decode env0 u \<noteq> None"
    by (simp add: generatedOnce_simps decode_env0_Png)
  note inst = upscale2x_doubles [of env0 ?v "\<lparr>width = 1024, height = 1280\<rparr>" generatedOnce]
  from inst d have one: "\<exists>c. upscale2x env0 ?v = Inr (Png c) \<and> cwidth c = 2048 \<and> cheight c = 2560"
    by auto
  from inst a have len: "length (variants (doUpscale env0 generatedOnce)) = 4"
    by (simp add: generatedOnce_simps(1))
  from inst a have every: "\<forall>i < length (variants generatedOnce).
           upscale2x env0 (variants generatedOnce ! i) = Inr (variants (doUpscale env0 generatedOnce) ! i)"
    by blast
  have "0 < length (variants generatedOnce)"
    by (simp add: generatedOnce_simps(1))
  with every
  have "upscale2x env0 (variants generatedOnce ! 0) = Inr (variants (doUpscale env0 generatedOnce) ! 0)"
    by blast
  with d one len show ?thesis
    by (intro conjI)
qed

subsection \<open>Failures\<close>




subsection \<open>The usage counter\<close>

lemma counter_ok_same:
  assumes "counter_ok e s" and "opsUsed s' = opsUsed s" and "localStorage s' = localStorage s"
  shows "counter_ok e s'"
  using assms by (simp add: counter_ok_def)





subsection \<open>Upload\<close>

text \<open>
  C8, as amended. For every uploaded file that the file reader can read, \<open>onUpload\<close>
  accepts the file, setting its data URL as the current image and leaving no error, if
  its MIME type starts with \<open>image/\<close>; and for every uploaded file whose MIME type does
  not start with \<open>image/\<close>, it sets the user-visible error message and leaves the
  current image unchanged.
\<close>

theorem onUpload_accepts_images:
  "(startsWith (ftype f) ''image/'' \<and> readable e f \<longrightarrow>
      img (onUpload e (Some f) s) = Some (FileData (ftype f) (bytes f))
      \<and> error (onUpload e (Some f) s) = None)
   \<and> (\<not> startsWith (ftype f) ''image/'' \<longrightarrow>
      img (onUpload e (Some f) s) = img s
      \<and> error (onUpload e (Some f) s) = Some ''Unggah file gambar (PNG/JPG)'')"
  by (simp add: onUpload_def fileToDataUrl_def)

text \<open>A readable PNG file is accepted; a text file is refused with the message.\<close>

theorem onUpload_accepts_images_witness:
  "startsWith (ftype pngFile) ''image/'' \<and> readable env0 pngFile
   \<and> img (onUpload env0 (Some pngFile) fresh) = Some (FileData ''image/png'' ''product'')
   \<and> error (onUpload env0 (Some pngFile) fresh) = None
   \<and> \<not> startsWith (ftype textFile) ''image/''
   \<and> img (onUpload env0 (Some textFile) fresh) = None
   \<and> error (onUpload env0 (Some textFile) fresh) = Some ''Unggah file gambar (PNG/JPG)''"
proof -
  have p: "startsWith (ftype pngFile) ''image/'' \<and> readable env0 pngFile"
    by (simp add: pngFile_def startsWith_def env0_def)
  have t: "\<not> startsWith (ftype textFile) ''image/''"
    by (simp add: textFile_def startsWith_def)
  have f: "img fresh = None"
    by (simp add: fresh_def mount_def)
  from onUpload_accepts_images [of pngFile env0 fresh] onUpload_accepts_images [of textFile env0 fresh]
    p t f
  show ?thesis
    by (simp add: pngFile_def)
qed

text \<open>
  C8 as stated fails for a file of type \<open>image/png\<close> that the file reader cannot read:
  \<open>fileToDataUrl\<close> rejects, the handler has no \<open>catch\<close>, and the file is neither set as
  the current image nor answered with an error message.
\<close>

theorem onUpload_counterexample:
  "startsWith (ftype pngFile) ''image/''
   \<and> img (onUpload envUnreadable (Some pngFile) fresh) = None
   \<and> error (onUpload envUnreadable (Some pngFile) fresh) = None"
  by (simp add: onUpload_def fileToDataUrl_def pngFile_def startsWith_def envUnreadable_def
      env0_def fresh_def mount_def)

subsection \<open>The key and the value in the store\<close>




subsection \<open>The fitted image stays inside its box\<close>



text \<open>
  The exact product is at most \<open>maxW\<close>. A product computed with an error below one
  half still rounds to at most \<open>maxW\<close>; the relative error of double precision stays
  that small for every box narrower than \<open>2 ^ 50\<close>.
\<close>

lemma Math_round_le_half:
  assumes "x < of_int m + 1 / 2"
  shows "Math_round x \<le> m"
  unfolding Math_round_def using assms by (simp add: floor_le_iff)

end
